theory Spec2Isabelle
  imports Complex_Main
begin

section \<open>Verification oracle adapter\<close>

text \<open>
  The helper \<^verbatim>\<open>performMockVerification\<close> of the verification and lender routes.
  JavaScript numbers are modelled as exact rationals, a nullable column as an option;
  the rounding of doubles, \<^verbatim>\<open>NaN\<close> and the infinities are outside the model.
  The artificial delay and the two time stamps of the result carry no logic and are
  left out; the \<^verbatim>\<open>timestamp\<close> entry of \<^verbatim>\<open>checks\<close> is a string, which the
  verdict counts as passed, so it never changes the verdict.
\<close>

record asset =
  asset_type :: string
  asset_value :: "rat option"
  asset_description :: "string option"

record rule_set =
  minValue :: rat
  maxValue :: rat
  requiredFields :: "string list"

text \<open>
  What a property read \<^verbatim>\<open>verificationRules[key]\<close> on the object literal yields: one of
  its three own entries, a member inherited from \<^verbatim>\<open>Object.prototype\<close> (a function or
  an object, truthy, without a \<^verbatim>\<open>requiredFields\<close> member), or \<^verbatim>\<open>undefined\<close>.
\<close>

datatype property = Own rule_set | Inherited | Undefined

definition deposit_rules :: rule_set where
  "deposit_rules = \<lparr>minValue = 1000, maxValue = 1000000,
     requiredFields = [''description'', ''value'']\<rparr>"

definition purchase_order_rules :: rule_set where
  "purchase_order_rules = \<lparr>minValue = 5000, maxValue = 5000000,
     requiredFields = [''description'', ''value'']\<rparr>"

definition invoice_rules :: rule_set where
  "invoice_rules = \<lparr>minValue = 1000, maxValue = 2000000,
     requiredFields = [''description'', ''value'']\<rparr>"

definition object_prototype_keys :: "string list" where
  "object_prototype_keys =
     [''constructor'', ''hasOwnProperty'', ''isPrototypeOf'', ''propertyIsEnumerable'',
      ''toLocaleString'', ''toString'', ''valueOf'', ''__proto__'',
      ''__defineGetter__'', ''__defineSetter__'', ''__lookupGetter__'',
      ''__lookupSetter__'']"

definition verificationRules :: "string \<Rightarrow> property" where
  "verificationRules key =
     (if key = ''deposit'' then Own deposit_rules
      else if key = ''purchase_order'' then Own purchase_order_rules
      else if key = ''invoice'' then Own invoice_rules
      else if key \<in> set object_prototype_keys then Inherited
      else Undefined)"

text \<open>Truthiness of \<^verbatim>\<open>asset[field]\<close>: a non-empty string, a number other than zero.\<close>

definition asset_field_truthy :: "asset \<Rightarrow> string \<Rightarrow> bool" where
  "asset_field_truthy a field =
     (if field = ''description'' then
        (case asset_description a of None \<Rightarrow> False | Some d \<Rightarrow> d \<noteq> [])
      else if field = ''value'' then
        (case asset_value a of None \<Rightarrow> False | Some v \<Rightarrow> v \<noteq> 0)
      else if field = ''type'' then asset_type a \<noteq> []
      else False)"

text \<open>A comparison coerces \<^verbatim>\<open>null\<close> to the number zero.\<close>

definition to_number :: "rat option \<Rightarrow> rat" where
  "to_number v = (case v of None \<Rightarrow> 0 | Some x \<Rightarrow> x)"

text \<open>
  The three entries of \<^verbatim>\<open>checks\<close> that can be booleans. \<^verbatim>\<open>hasValidDescription\<close> is
  \<^verbatim>\<open>asset.description && asset.description.length >= 10\<close>: for a missing or empty
  description it is that description itself and not a boolean (\<open>None\<close> here).
\<close>

record checks =
  hasRequiredFields :: bool
  valueInRange :: bool
  hasValidDescription :: "bool option"

datatype verification_status = Verified | Verification_failed

datatype risk = Low | High

record verification =
  v_status :: verification_status
  v_checks :: checks
  verifiedAmount :: "rat option"
  confidence :: rat
  riskScore :: risk
  v_error :: "string option"

datatype js_error = TypeError

definition run_checks :: "rule_set \<Rightarrow> asset \<Rightarrow> checks" where
  "run_checks rules a =
     \<lparr>hasRequiredFields = list_all (asset_field_truthy a) (requiredFields rules),
      valueInRange = (to_number (asset_value a) \<ge> minValue rules
                      \<and> to_number (asset_value a) \<le> maxValue rules),
      hasValidDescription =
        (case asset_description a of
           None \<Rightarrow> None
         | Some d \<Rightarrow> if d = [] then None else Some (length d \<ge> 10))\<rparr>"

text \<open>\<^verbatim>\<open>Object.values(checks).every(check => typeof check === 'boolean' ? check : true)\<close>\<close>

definition passed :: "checks \<Rightarrow> bool" where
  "passed c =
     (hasRequiredFields c \<and> valueInRange c
      \<and> (case hasValidDescription c of None \<Rightarrow> True | Some b \<Rightarrow> b))"

definition verdict :: "asset \<Rightarrow> checks \<Rightarrow> verification" where
  "verdict a c =
     \<lparr>v_status = (if passed c then Verified else Verification_failed),
      v_checks = c,
      verifiedAmount = asset_value a,
      confidence = (if passed c then 95 / 100 else 45 / 100),
      riskScore = (if passed c then Low else High),
      v_error = (if passed c then None
                 else Some ''Asset did not meet verification criteria'')\<rparr>"

text \<open>
  \<^verbatim>\<open>const rules = verificationRules[asset.type] || verificationRules.deposit\<close>, then
  \<^verbatim>\<open>rules.requiredFields.every(...)\<close>, which throws when \<^verbatim>\<open>rules\<close> has no such member.
\<close>

definition performMockVerification :: "asset \<Rightarrow> js_error + verification" where
  "performMockVerification a =
     (case verificationRules (asset_type a) of
        Own rules \<Rightarrow> Inr (verdict a (run_checks rules a))
      | Undefined \<Rightarrow> Inr (verdict a (run_checks deposit_rules a))
      | Inherited \<Rightarrow> Inl TypeError)"

text \<open>
  The acceptance table as the specification words it: the value range of each asset type,
  and the condition under which an asset passes.
\<close>

definition spec_range :: "string \<Rightarrow> rat \<times> rat" where
  "spec_range t =
     (if t = ''purchase_order'' then (5000, 5000000)
      else if t = ''invoice'' then (1000, 2000000)
      else (1000, 1000000))"

definition spec_passes :: "asset \<Rightarrow> bool" where
  "spec_passes a =
     (case (asset_description a, asset_value a) of
        (Some d, Some v) \<Rightarrow>
          fst (spec_range (asset_type a)) \<le> v \<and> v \<le> snd (spec_range (asset_type a))
          \<and> length d \<ge> 10
      | _ \<Rightarrow> False)"

definition known_type :: "string \<Rightarrow> bool" where
  "known_type t = (t = ''deposit'' \<or> t = ''purchase_order'' \<or> t = ''invoice'')"

definition verified_result :: "verification \<Rightarrow> bool" where
  "verified_result r =
     (v_status r = Verified \<and> confidence r = 95 / 100 \<and> riskScore r = Low
      \<and> v_error r = None)"

definition failed_result :: "verification \<Rightarrow> bool" where
  "failed_result r =
     (v_status r = Verification_failed \<and> confidence r = 45 / 100 \<and> riskScore r = High
      \<and> v_error r \<noteq> None)"

section \<open>Escrow lifecycle engine\<close>

text \<open>
  The escrow routes and the escrow milestone routes, after authentication: the caller is
  the authenticated user. Requests are served one at a time. A table is the list of its
  rows and the id of a row is its position, so an insert appends and no row is ever
  deleted. Amounts and percentages are exact rationals.
  Free text that no decision reads (project name, titles, descriptions, due dates) and
  time stamps are left out. A column that an insert does not supply is \<open>None\<close>; the
  code reads such an amount as zero (\<^verbatim>\<open>released_amount || 0\<close>).

  Every call to the store can fail. The argument \<open>fails\<close> of a route tells which of its
  store calls, numbered from 0 in source order, returns an error. The argument \<open>cfg\<close> is
  \<^verbatim>\<open>supabaseAdmin\<close> being non-null.
\<close>

datatype error =
  ServiceUnavailable | ValidationError | AccessDenied | NotFound | InvalidState
  | UnexpectedError

fun http_status :: "error \<Rightarrow> nat" where
  "http_status ServiceUnavailable = 503"
| "http_status ValidationError = 400"
| "http_status AccessDenied = 403"
| "http_status NotFound = 404"
| "http_status InvalidState = 400"
| "http_status UnexpectedError = 500"

record user =
  user_id :: nat
  user_email :: string

datatype escrow_status = Draft | Invited | Pending_deposit | Active

datatype milestone_status = Pending | Submitted | Approved | Rejected

record escrow =
  sme_id :: nat
  customer_id :: "nat option"
  customer_email :: string
  total_amount :: rat
  deposited_amount :: "rat option"
  released_amount :: "rat option"
  e_status :: escrow_status
  invite_token :: string

record milestone =
  escrow_id :: nat
  amount :: rat
  percentage :: rat
  order_index :: nat
  m_status :: milestone_status
  evidence_description :: "string option"
  evidence_url :: "string option"
  submitted_by :: "nat option"
  approved_by :: "nat option"
  rejection_reason :: "string option"

datatype action_type =
  Escrow_created | Invite_sent | Invite_accepted | Funds_deposited
  | Milestone_submitted | Milestone_approved | Milestone_rejected

record activity =
  act_escrow_id :: nat
  act_milestone_id :: "nat option"
  act_user_id :: nat
  act_type :: action_type
  act_amount :: "rat option"

record store =
  escrows :: "escrow list"
  escrow_milestones :: "milestone list"
  escrow_activities :: "activity list"

definition empty_store :: store where
  "empty_store = \<lparr>escrows = [], escrow_milestones = [], escrow_activities = []\<rparr>"

text \<open>\<^verbatim>\<open>.eq('id', id).single()\<close>: the row, or an error when there is none.\<close>

definition single_by_id :: "'a list \<Rightarrow> nat \<Rightarrow> 'a option" where
  "single_by_id rows i = (if i < length rows then Some (rows ! i) else None)"

text \<open>
  \<^verbatim>\<open>.eq('invite_token', token).single()\<close>: the id of the only escrow with that token;
  an error when no row or more than one row matches.
\<close>

definition single_by_token :: "escrow list \<Rightarrow> string \<Rightarrow> nat option" where
  "single_by_token rows token =
     (case filter (\<lambda>i. invite_token (rows ! i) = token) [0..<length rows] of
        [i] \<Rightarrow> Some i
      | _ \<Rightarrow> None)"

text \<open>
  An insert into the activity log. Its result is awaited and not inspected: when it fails
  no row is written and the route goes on.
\<close>

definition log_activity :: "bool \<Rightarrow> activity \<Rightarrow> store \<Rightarrow> store" where
  "log_activity failed a s =
     (if failed then s else s\<lparr>escrow_activities := escrow_activities s @ [a]\<rparr>)"

definition update_escrow :: "nat \<Rightarrow> (escrow \<Rightarrow> escrow) \<Rightarrow> store \<Rightarrow> store" where
  "update_escrow i f s = s\<lparr>escrows := (escrows s)[i := f (escrows s ! i)]\<rparr>"

definition update_milestone :: "nat \<Rightarrow> (milestone \<Rightarrow> milestone) \<Rightarrow> store \<Rightarrow> store" where
  "update_milestone i f s =
     s\<lparr>escrow_milestones := (escrow_milestones s)[i := f (escrow_milestones s ! i)]\<rparr>"

subsection \<open>POST /api/escrow/create\<close>

record milestone_input =
  in_percentage :: rat

record create_request =
  req_customer_email :: string
  req_total_amount :: rat
  req_milestones :: "milestone_input list option"

text \<open>\<^verbatim>\<open>milestones.reduce((sum, m) => sum + parseFloat(m.percentage), 0)\<close>\<close>

definition totalPercentage :: "milestone_input list \<Rightarrow> rat" where
  "totalPercentage ms = foldl (\<lambda>acc m. acc + in_percentage m) 0 ms"

text \<open>\<^verbatim>\<open>milestones.map((m, index) => ({...}))\<close>, from position \<open>index\<close> on.\<close>

fun milestonesData :: "nat \<Rightarrow> rat \<Rightarrow> nat \<Rightarrow> milestone_input list \<Rightarrow> milestone list" where
  "milestonesData eid total_amt index [] = []"
| "milestonesData eid total_amt index (m # ms) =
     \<lparr>escrow_id = eid,
      amount = (in_percentage m / 100) * total_amt,
      percentage = in_percentage m,
      order_index = index + 1,
      m_status = Pending,
      evidence_description = None, evidence_url = None,
      submitted_by = None, approved_by = None, rejection_reason = None\<rparr>
     # milestonesData eid total_amt (index + 1) ms"

definition create ::
  "bool \<Rightarrow> user \<Rightarrow> string \<Rightarrow> create_request \<Rightarrow> (nat \<Rightarrow> bool) \<Rightarrow> store
     \<Rightarrow> (error + nat) \<times> store" where
  "create cfg u inviteToken req fails s =
     (if \<not> cfg then (Inl ServiceUnavailable, s)
      else case req_milestones req of
        None \<Rightarrow> (Inl ValidationError, s)
      | Some ms \<Rightarrow>
          if ms = [] then (Inl ValidationError, s)
          else if \<bar>totalPercentage ms - 100\<bar> > 1 / 100 then (Inl ValidationError, s)
          else if fails 0 then (Inl UnexpectedError, s)
          else
            let eid = length (escrows s);
                s1 = s\<lparr>escrows := escrows s @
                       [\<lparr>sme_id = user_id u, customer_id = None,
                         customer_email = req_customer_email req,
                         total_amount = req_total_amount req,
                         deposited_amount = None, released_amount = None,
                         e_status = Draft, invite_token = inviteToken\<rparr>]\<rparr>
            in if fails 1 then (Inl UnexpectedError, s1)
               else
                 let s2 = s1\<lparr>escrow_milestones := escrow_milestones s1 @
                            milestonesData eid (req_total_amount req) 0 ms\<rparr>
                 in (Inr eid,
                     log_activity (fails 2)
                       \<lparr>act_escrow_id = eid, act_milestone_id = None,
                        act_user_id = user_id u, act_type = Escrow_created,
                        act_amount = None\<rparr> s2))"

subsection \<open>POST /api/escrow/:id/invite\<close>

definition sendInvite ::
  "bool \<Rightarrow> user \<Rightarrow> nat \<Rightarrow> (nat \<Rightarrow> bool) \<Rightarrow> store \<Rightarrow> (error + string) \<times> store" where
  "sendInvite cfg u i fails s =
     (if \<not> cfg then (Inl ServiceUnavailable, s)
      else case (if fails 0 then None else single_by_id (escrows s) i) of
        None \<Rightarrow> (Inl NotFound, s)
      | Some e \<Rightarrow>
          if sme_id e \<noteq> user_id u then (Inl NotFound, s)
          else if fails 1 then (Inl UnexpectedError, s)
          else (Inr (invite_token e),
                log_activity (fails 2)
                  \<lparr>act_escrow_id = i, act_milestone_id = None, act_user_id = user_id u,
                   act_type = Invite_sent, act_amount = None\<rparr>
                  (update_escrow i (\<lambda>e. e\<lparr>e_status := Invited\<rparr>) s)))"

subsection \<open>POST /api/escrow/accept/:token\<close>

definition acceptInvite ::
  "bool \<Rightarrow> user \<Rightarrow> string \<Rightarrow> (nat \<Rightarrow> bool) \<Rightarrow> store \<Rightarrow> (error + nat) \<times> store" where
  "acceptInvite cfg u token fails s =
     (if \<not> cfg then (Inl ServiceUnavailable, s)
      else case (if fails 0 then None else single_by_token (escrows s) token) of
        None \<Rightarrow> (Inl NotFound, s)
      | Some i \<Rightarrow>
          let e = escrows s ! i in
          if customer_email e \<noteq> user_email u then (Inl AccessDenied, s)
          else if e_status e = Pending_deposit \<or> e_status e = Active
            then (Inl InvalidState, s)
          else if fails 1 then (Inl UnexpectedError, s)
          else (Inr i,
                log_activity (fails 2)
                  \<lparr>act_escrow_id = i, act_milestone_id = None, act_user_id = user_id u,
                   act_type = Invite_accepted, act_amount = None\<rparr>
                  (update_escrow i
                     (\<lambda>e. e\<lparr>customer_id := Some (user_id u), e_status := Pending_deposit\<rparr>)
                     s)))"

subsection \<open>POST /api/escrow/:id/deposit\<close>

definition deposit ::
  "bool \<Rightarrow> user \<Rightarrow> nat \<Rightarrow> (nat \<Rightarrow> bool) \<Rightarrow> store \<Rightarrow> (error + rat) \<times> store" where
  "deposit cfg u i fails s =
     (if \<not> cfg then (Inl ServiceUnavailable, s)
      else case (if fails 0 then None else single_by_id (escrows s) i) of
        None \<Rightarrow> (Inl NotFound, s)
      | Some e \<Rightarrow>
          if customer_id e \<noteq> Some (user_id u) then (Inl NotFound, s)
          else if e_status e \<noteq> Pending_deposit then (Inl InvalidState, s)
          else if fails 1 then (Inl UnexpectedError, s)
          else (Inr (total_amount e),
                log_activity (fails 2)
                  \<lparr>act_escrow_id = i, act_milestone_id = None, act_user_id = user_id u,
                   act_type = Funds_deposited, act_amount = Some (total_amount e)\<rparr>
                  (update_escrow i
                     (\<lambda>e. e\<lparr>e_status := Active,
                            deposited_amount := Some (total_amount e)\<rparr>)
                     s)))"

subsection \<open>Milestone routes\<close>

text \<open>
  \<^verbatim>\<open>.select('*, escrows(...)')\<close> joins the parent escrow in. Where a milestone has no
  parent row the joined value is null and reading a member of it throws, which the
  route's \<^verbatim>\<open>catch\<close> answers with 500.
\<close>

definition submitMilestone ::
  "bool \<Rightarrow> user \<Rightarrow> nat \<Rightarrow> string option \<Rightarrow> string option \<Rightarrow> (nat \<Rightarrow> bool) \<Rightarrow> store
     \<Rightarrow> (error + unit) \<times> store" where
  "submitMilestone cfg u i ev_description ev_url fails s =
     (if \<not> cfg then (Inl ServiceUnavailable, s)
      else case (if fails 0 then None else single_by_id (escrow_milestones s) i) of
        None \<Rightarrow> (Inl NotFound, s)
      | Some m \<Rightarrow>
          (case single_by_id (escrows s) (escrow_id m) of
             None \<Rightarrow> (Inl UnexpectedError, s)
           | Some e \<Rightarrow>
               if sme_id e \<noteq> user_id u then (Inl AccessDenied, s)
               else if m_status m \<noteq> Pending \<and> m_status m \<noteq> Rejected
                 then (Inl InvalidState, s)
               else if fails 1 then (Inl UnexpectedError, s)
               else (Inr (),
                     log_activity (fails 2)
                       \<lparr>act_escrow_id = escrow_id m, act_milestone_id = Some i,
                        act_user_id = user_id u, act_type = Milestone_submitted,
                        act_amount = None\<rparr>
                       (update_milestone i
                          (\<lambda>m. m\<lparr>m_status := Submitted,
                                 evidence_description := ev_description,
                                 evidence_url := ev_url,
                                 submitted_by := Some (user_id u)\<rparr>)
                          s))))"

definition approveMilestone ::
  "bool \<Rightarrow> user \<Rightarrow> nat \<Rightarrow> (nat \<Rightarrow> bool) \<Rightarrow> store \<Rightarrow> (error + unit) \<times> store" where
  "approveMilestone cfg u i fails s =
     (if \<not> cfg then (Inl ServiceUnavailable, s)
      else case (if fails 0 then None else single_by_id (escrow_milestones s) i) of
        None \<Rightarrow> (Inl NotFound, s)
      | Some m \<Rightarrow>
          (case single_by_id (escrows s) (escrow_id m) of
             None \<Rightarrow> (Inl UnexpectedError, s)
           | Some e \<Rightarrow>
               if customer_id e \<noteq> Some (user_id u) then (Inl AccessDenied, s)
               else if m_status m \<noteq> Submitted then (Inl InvalidState, s)
               else if fails 1 then (Inl UnexpectedError, s)
               else
                 let s1 = update_milestone i
                            (\<lambda>m. m\<lparr>m_status := Approved,
                                   approved_by := Some (user_id u)\<rparr>) s;
                     newReleasedAmount = to_number (released_amount e) + amount m
                 in if fails 2 then (Inl UnexpectedError, s1)
                    else (Inr (),
                          log_activity (fails 3)
                            \<lparr>act_escrow_id = escrow_id m, act_milestone_id = Some i,
                             act_user_id = user_id u, act_type = Milestone_approved,
                             act_amount = Some (amount m)\<rparr>
                            (update_escrow (escrow_id m)
                               (\<lambda>e. e\<lparr>released_amount := Some newReleasedAmount\<rparr>)
                               s1))))"

text \<open>The reason is tested for truthiness first: \<^verbatim>\<open>undefined\<close> and the empty string fail.\<close>

definition rejectMilestone ::
  "bool \<Rightarrow> user \<Rightarrow> nat \<Rightarrow> string option \<Rightarrow> (nat \<Rightarrow> bool) \<Rightarrow> store
     \<Rightarrow> (error + unit) \<times> store" where
  "rejectMilestone cfg u i reason fails s =
     (if reason = None \<or> reason = Some [] then (Inl ValidationError, s)
      else if \<not> cfg then (Inl ServiceUnavailable, s)
      else case (if fails 0 then None else single_by_id (escrow_milestones s) i) of
        None \<Rightarrow> (Inl NotFound, s)
      | Some m \<Rightarrow>
          (case single_by_id (escrows s) (escrow_id m) of
             None \<Rightarrow> (Inl UnexpectedError, s)
           | Some e \<Rightarrow>
               if customer_id e \<noteq> Some (user_id u) then (Inl AccessDenied, s)
               else if fails 1 then (Inl UnexpectedError, s)
               else (Inr (),
                     log_activity (fails 2)
                       \<lparr>act_escrow_id = escrow_id m, act_milestone_id = Some i,
                        act_user_id = user_id u, act_type = Milestone_rejected,
                        act_amount = None\<rparr>
                       (update_milestone i
                          (\<lambda>m. m\<lparr>m_status := Rejected, rejection_reason := reason\<rparr>)
                          s))))"

subsection \<open>Sequences of operations\<close>

datatype operation =
  Create user string create_request
  | SendInvite user nat
  | AcceptInvite user string
  | Deposit user nat
  | SubmitMilestone user nat "string option" "string option"
  | ApproveMilestone user nat
  | RejectMilestone user nat "string option"

text \<open>The store after one operation, whatever the route answered.\<close>

fun exec :: "bool \<Rightarrow> operation \<Rightarrow> (nat \<Rightarrow> bool) \<Rightarrow> store \<Rightarrow> store" where
  "exec cfg (Create u t r) fails s = snd (create cfg u t r fails s)"
| "exec cfg (SendInvite u i) fails s = snd (sendInvite cfg u i fails s)"
| "exec cfg (AcceptInvite u t) fails s = snd (acceptInvite cfg u t fails s)"
| "exec cfg (Deposit u i) fails s = snd (deposit cfg u i fails s)"
| "exec cfg (SubmitMilestone u i d l) fails s = snd (submitMilestone cfg u i d l fails s)"
| "exec cfg (ApproveMilestone u i) fails s = snd (approveMilestone cfg u i fails s)"
| "exec cfg (RejectMilestone u i r) fails s = snd (rejectMilestone cfg u i r fails s)"

text \<open>No store call fails.\<close>

definition no_fault :: "nat \<Rightarrow> bool" where
  "no_fault k = False"

fun run :: "operation list \<Rightarrow> store \<Rightarrow> store" where
  "run [] s = s"
| "run (x # xs) s = run xs (exec True x no_fault s)"

inductive reachable :: "store \<Rightarrow> bool" where
  init: "reachable empty_store"
| step: "reachable s \<Longrightarrow> reachable (exec cfg x fails s)"

section \<open>Lender review of loans\<close>

text \<open>
  Two routers review loans. The verification and lender router
  (\<^verbatim>\<open>approve-loan/:loanId\<close>, \<^verbatim>\<open>reject-loan/:loanId\<close>) runs behind
  \<^verbatim>\<open>authenticateToken\<close>, which loads the caller's profile, and \<^verbatim>\<open>requireLenderRole\<close>.
  The lender router (\<^verbatim>\<open>loan/:id/approve\<close>, \<^verbatim>\<open>loan/:id/reject\<close>) reads the role of
  the caller itself. Both are mounted by the server. The time of the request is the
  argument \<open>now\<close>. A member missing from the request body is \<open>None\<close>: an update leaves
  the column of a missing member as it was, unless the code writes \<^verbatim>\<open>x || null\<close>.
\<close>

datatype loan_status =
  Loan_requested | Loan_approved | Loan_rejected | Loan_funded | Loan_active

record loan =
  l_status :: loan_status
  lender_id :: "nat option"
  reviewed_at :: "nat option"
  approved_at :: "nat option"
  lender_notes :: "string option"
  approval_conditions :: "string option"

record status_change =
  h_loan_id :: nat
  old_status :: loan_status
  new_status :: loan_status
  changed_by :: nat
  h_notes :: "string option"

record profile =
  profile_id :: nat
  profile_role :: string

record loan_store =
  loans :: "loan list"
  loan_status_history :: "status_change list"
  profiles :: "(nat \<times> string) list"

datatype loan_error =
  Lender_access_required
  | Rejection_reason_required
  | Not_pending_approval loan_status
  | Server_error

fun loan_http_status :: "loan_error \<Rightarrow> nat" where
  "loan_http_status Lender_access_required = 403"
| "loan_http_status Rejection_reason_required = 400"
| "loan_http_status (Not_pending_approval st) = 400"
| "loan_http_status Server_error = 500"

definition requireLenderRole :: "profile \<Rightarrow> bool" where
  "requireLenderRole u = (\<not> (profile_role u \<noteq> ''lender'' \<and> profile_role u \<noteq> ''admin''))"

definition log_status_change :: "bool \<Rightarrow> status_change \<Rightarrow> loan_store \<Rightarrow> loan_store" where
  "log_status_change failed h s =
     (if failed then s else s\<lparr>loan_status_history := loan_status_history s @ [h]\<rparr>)"

definition written :: "string option \<Rightarrow> string option \<Rightarrow> string option" where
  "written new old = (case new of None \<Rightarrow> old | Some x \<Rightarrow> Some x)"

subsection \<open>Verification and lender router\<close>

definition approve_loan ::
  "profile \<Rightarrow> nat \<Rightarrow> string option \<Rightarrow> string option \<Rightarrow> nat \<Rightarrow> (nat \<Rightarrow> bool) \<Rightarrow> loan_store
     \<Rightarrow> (loan_error + loan) \<times> loan_store" where
  "approve_loan u loanId notes conditions now fails s =
     (if \<not> requireLenderRole u then (Inl Lender_access_required, s)
      else case (if fails 0 then None else single_by_id (loans s) loanId) of
        None \<Rightarrow> (Inl Server_error, s)
      | Some currentLoan \<Rightarrow>
          if l_status currentLoan \<noteq> Loan_requested
            then (Inl (Not_pending_approval (l_status currentLoan)), s)
          else if fails 1 then (Inl Server_error, s)
          else
            let updatedLoan = currentLoan
                  \<lparr>l_status := Loan_approved,
                   lender_id := Some (profile_id u),
                   reviewed_at := Some now,
                   approved_at := Some now,
                   lender_notes := written notes (lender_notes currentLoan),
                   approval_conditions :=
                     written conditions (approval_conditions currentLoan)\<rparr>
            in (Inr updatedLoan,
                log_status_change (fails 2)
                  \<lparr>h_loan_id = loanId, old_status = Loan_requested,
                   new_status = Loan_approved, changed_by = profile_id u,
                   h_notes = notes\<rparr>
                  (s\<lparr>loans := (loans s)[loanId := updatedLoan]\<rparr>)))"

definition reject_loan ::
  "profile \<Rightarrow> nat \<Rightarrow> string option \<Rightarrow> nat \<Rightarrow> (nat \<Rightarrow> bool) \<Rightarrow> loan_store
     \<Rightarrow> (loan_error + loan) \<times> loan_store" where
  "reject_loan u loanId reason now fails s =
     (if \<not> requireLenderRole u then (Inl Lender_access_required, s)
      else if reason = None \<or> reason = Some [] then (Inl Rejection_reason_required, s)
      else case (if fails 0 then None else single_by_id (loans s) loanId) of
        None \<Rightarrow> (Inl Server_error, s)
      | Some currentLoan \<Rightarrow>
          if l_status currentLoan \<noteq> Loan_requested
            then (Inl (Not_pending_approval (l_status currentLoan)), s)
          else if fails 1 then (Inl Server_error, s)
          else
            let updatedLoan = currentLoan
                  \<lparr>l_status := Loan_rejected,
                   lender_id := Some (profile_id u),
                   reviewed_at := Some now,
                   lender_notes := reason\<rparr>
            in (Inr updatedLoan,
                log_status_change (fails 2)
                  \<lparr>h_loan_id = loanId, old_status = Loan_requested,
                   new_status = Loan_rejected, changed_by = profile_id u,
                   h_notes = reason\<rparr>
                  (s\<lparr>loans := (loans s)[loanId := updatedLoan]\<rparr>)))"

subsection \<open>Lender router\<close>

text \<open>
  \<^verbatim>\<open>profileError || !profile || profile.role !== 'lender'\<close> answers 403. The update
  ends in \<^verbatim>\<open>.select().single()\<close>, which is an error when no loan has the id.
  \<^verbatim>\<open>x || null\<close> turns a missing or empty text into null.
\<close>

definition or_null :: "string option \<Rightarrow> string option" where
  "or_null x = (if x = Some [] then None else x)"

definition lender_approve ::
  "nat \<Rightarrow> nat \<Rightarrow> string option \<Rightarrow> nat \<Rightarrow> (nat \<Rightarrow> bool) \<Rightarrow> loan_store
     \<Rightarrow> (loan_error + loan) \<times> loan_store" where
  "lender_approve userId loanId conditions now fails s =
     (case (if fails 0 then None else map_of (profiles s) userId) of
        None \<Rightarrow> (Inl Lender_access_required, s)
      | Some role \<Rightarrow>
          if role \<noteq> ''lender'' then (Inl Lender_access_required, s)
          else case (if fails 1 then None else single_by_id (loans s) loanId) of
            None \<Rightarrow> (Inl Server_error, s)
          | Some l \<Rightarrow>
              let updatedLoan = l
                    \<lparr>l_status := Loan_approved,
                     lender_id := Some userId,
                     approval_conditions := or_null conditions,
                     reviewed_at := Some now\<rparr>
              in (Inr updatedLoan, s\<lparr>loans := (loans s)[loanId := updatedLoan]\<rparr>))"

definition lender_reject ::
  "nat \<Rightarrow> nat \<Rightarrow> string option \<Rightarrow> nat \<Rightarrow> (nat \<Rightarrow> bool) \<Rightarrow> loan_store
     \<Rightarrow> (loan_error + loan) \<times> loan_store" where
  "lender_reject userId loanId rejection_reason' now fails s =
     (case (if fails 0 then None else map_of (profiles s) userId) of
        None \<Rightarrow> (Inl Lender_access_required, s)
      | Some role \<Rightarrow>
          if role \<noteq> ''lender'' then (Inl Lender_access_required, s)
          else case (if fails 1 then None else single_by_id (loans s) loanId) of
            None \<Rightarrow> (Inl Server_error, s)
          | Some l \<Rightarrow>
              let updatedLoan = l
                    \<lparr>l_status := Loan_rejected,
                     lender_id := Some userId,
                     lender_notes := or_null rejection_reason',
                     reviewed_at := Some now\<rparr>
              in (Inr updatedLoan, s\<lparr>loans := (loans s)[loanId := updatedLoan]\<rparr>))"

section \<open>Derived notions\<close>

text \<open>The milestones of an escrow, in table order, and the amounts the claims speak of.\<close>

definition milestones_of :: "store \<Rightarrow> nat \<Rightarrow> milestone list" where
  "milestones_of s eid = filter (\<lambda>m. escrow_id m = eid) (escrow_milestones s)"

definition released_of :: "store \<Rightarrow> nat \<Rightarrow> rat" where
  "released_of s eid = to_number (released_amount (escrows s ! eid))"

definition approved_amounts :: "store \<Rightarrow> nat \<Rightarrow> rat" where
  "approved_amounts s eid =
     sum_list (map amount (filter (\<lambda>m. m_status m = Approved) (milestones_of s eid)))"

definition milestone_amounts :: "store \<Rightarrow> nat \<Rightarrow> rat" where
  "milestone_amounts s eid = sum_list (map amount (milestones_of s eid))"

text \<open>The foreign key of the milestone table: every milestone has a parent escrow.\<close>

definition foreign_keys_ok :: "store \<Rightarrow> bool" where
  "foreign_keys_ok s =
     list_all (\<lambda>m. escrow_id m < length (escrows s)) (escrow_milestones s)"




definition ledger_inv :: "store \<Rightarrow> bool" where
  "ledger_inv s =
     ((\<forall>m \<in> set (escrow_milestones s). escrow_id m < length (escrows s) \<and> 0 \<le> amount m)
      \<and> (\<forall>eid < length (escrows s).
           released_of s eid \<le> approved_amounts s eid
           \<and> milestone_amounts s eid \<le> 10001 / 10000 * total_amount (escrows s ! eid)))"

section \<open>Example stores\<close>

text \<open>
  The scenario of the specification: an escrow of 10000 with milestones of 50, 30 and 20
  percent, invited, accepted and funded, its first milestone submitted and then approved.
\<close>

definition sme_user :: user where
  "sme_user = \<lparr>user_id = 1, user_email = ''sme@example.com''\<rparr>"

definition customer_user :: user where
  "customer_user = \<lparr>user_id = 2, user_email = ''customer@example.com''\<rparr>"

definition other_user :: user where
  "other_user = \<lparr>user_id = 3, user_email = ''other@example.com''\<rparr>"

definition example_request :: create_request where
  "example_request =
     \<lparr>req_customer_email = ''customer@example.com'', req_total_amount = 10000,
      req_milestones =
        Some [\<lparr>in_percentage = 50\<rparr>, \<lparr>in_percentage = 30\<rparr>, \<lparr>in_percentage = 20\<rparr>]\<rparr>"

definition example_operations :: "operation list" where
  "example_operations =
     [Create sme_user ''token-1'' example_request,
      SendInvite sme_user 0,
      AcceptInvite customer_user ''token-1'',
      Deposit customer_user 0,
      SubmitMilestone sme_user 0 (Some ''phase one delivered'') None]"

definition example_submitted :: store where
  "example_submitted = run example_operations empty_store"

definition example_store :: store where
  "example_store = run [ApproveMilestone customer_user 0] example_submitted"

text \<open>An escrow whose percentages, 50 and 50.005, pass the tolerance of the validation.\<close>

definition tolerance_request :: create_request where
  "tolerance_request =
     \<lparr>req_customer_email = ''customer@example.com'', req_total_amount = 10000,
      req_milestones = Some [\<lparr>in_percentage = 50\<rparr>, \<lparr>in_percentage = 10001 / 200\<rparr>]\<rparr>"

definition tolerance_operations :: "operation list" where
  "tolerance_operations =
     [Create sme_user ''token-2'' tolerance_request,
      SendInvite sme_user 0,
      AcceptInvite customer_user ''token-2'',
      Deposit customer_user 0,
      SubmitMilestone sme_user 0 None None,
      ApproveMilestone customer_user 0,
      SubmitMilestone sme_user 1 None None,
      ApproveMilestone customer_user 1]"


text \<open>A request whose percentages sum to 90.\<close>

definition short_request :: create_request where
  "short_request =
     \<lparr>req_customer_email = ''customer@example.com'', req_total_amount = 10000,
      req_milestones = Some [\<lparr>in_percentage = 60\<rparr>, \<lparr>in_percentage = 30\<rparr>]\<rparr>"

text \<open>The third store call of a route fails, the others succeed.\<close>

definition third_call_fails :: "nat \<Rightarrow> bool" where
  "third_call_fails k = (k = 2)"

text \<open>A loan that is already funded, and the profiles of two lenders and an admin.\<close>

definition example_loans :: loan_store where
  "example_loans =
     \<lparr>loans = [\<lparr>l_status = Loan_funded, lender_id = Some 7, reviewed_at = None,
                approved_at = None, lender_notes = None, approval_conditions = None\<rparr>],
      loan_status_history = [],
      profiles = [(5, ''lender''), (6, ''admin''), (7, ''lender'')]\<rparr>"

section \<open>Properties of the verification oracle adapter\<close>

lemma passed_run_checks:
  assumes "requiredFields rules = [''description'', ''value'']"
    and "0 < minValue rules"
  shows "passed (run_checks rules a) =
     (case (asset_description a, asset_value a) of
        (Some d, Some v) \<Rightarrow> minValue rules \<le> v \<and> v \<le> maxValue rules \<and> length d \<ge> 10
      | _ \<Rightarrow> False)"
  using assms
  by (auto simp: passed_def run_checks_def asset_field_truthy_def to_number_def
      split: option.splits)

lemma known_type_rules:
  assumes "known_type (asset_type a)"
  shows "\<exists>rules. verificationRules (asset_type a) = Own rules
     \<and> requiredFields rules = [''description'', ''value'']
     \<and> minValue rules = fst (spec_range (asset_type a))
     \<and> maxValue rules = snd (spec_range (asset_type a))
     \<and> 0 < minValue rules"
  using assms
  by (auto simp: known_type_def verificationRules_def spec_range_def deposit_rules_def
      purchase_order_rules_def invoice_rules_def)

text \<open>
  C8. On an asset of one of the three types, the verification returns a verdict, and the
  verdict is verified with confidence 0.95 and risk low exactly when description and value
  are present, the value is within the range of the type and the description has at least
  ten characters; otherwise it is verification failed with confidence 0.45, risk high and
  an error text. An invoice of value 500 fails; an invoice of value 50000 with a
  description of twenty characters is verified.
\<close>

theorem verify_verdict:
  "(known_type (asset_type a) \<longrightarrow>
      (\<exists>r. performMockVerification a = Inr r
         \<and> (verified_result r \<longleftrightarrow> spec_passes a)
         \<and> (failed_result r \<longleftrightarrow> \<not> spec_passes a)))
   \<and> (\<exists>r. performMockVerification
            \<lparr>asset_type = ''invoice'', asset_value = Some 500, asset_description = d\<rparr> = Inr r
          \<and> failed_result r)
   \<and> (\<exists>r. performMockVerification
            \<lparr>asset_type = ''invoice'', asset_value = Some 50000,
             asset_description = Some ''Invoice 0042 of May 1''\<rparr> = Inr r
          \<and> verified_result r)"
proof (intro conjI impI)
  assume k: "known_type (asset_type a)"
  from known_type_rules [OF k] obtain rules where
    r: "verificationRules (asset_type a) = Own rules"
      "requiredFields rules = [''description'', ''value'']"
      "minValue rules = fst (spec_range (asset_type a))"
      "maxValue rules = snd (spec_range (asset_type a))"
      "0 < minValue rules"
    by blast
  have p: "passed (run_checks rules a) = spec_passes a"
    using passed_run_checks [OF r(2) r(5), of a] r(3,4)
    by (simp add: spec_passes_def split: option.splits)
  have e: "performMockVerification a = Inr (verdict a (run_checks rules a))"
    by (simp add: performMockVerification_def r(1))
  have "verified_result (verdict a (run_checks rules a)) \<longleftrightarrow> spec_passes a"
    and "failed_result (verdict a (run_checks rules a)) \<longleftrightarrow> \<not> spec_passes a"
    using p by (auto simp: verdict_def verified_result_def failed_result_def)
  with e show "\<exists>r. performMockVerification a = Inr r
         \<and> (verified_result r \<longleftrightarrow> spec_passes a)
         \<and> (failed_result r \<longleftrightarrow> \<not> spec_passes a)"
    by blast
next
  show "\<exists>r. performMockVerification
            \<lparr>asset_type = ''invoice'', asset_value = Some 500, asset_description = d\<rparr> = Inr r
          \<and> failed_result r"
    by (simp add: performMockVerification_def verificationRules_def verdict_def
        failed_result_def passed_def run_checks_def invoice_rules_def to_number_def)
next
  show "\<exists>r. performMockVerification
            \<lparr>asset_type = ''invoice'', asset_value = Some 50000,
             asset_description = Some ''Invoice 0042 of May 1''\<rparr> = Inr r
          \<and> verified_result r"
    by (simp add: performMockVerification_def verificationRules_def verdict_def
        verified_result_def passed_def run_checks_def invoice_rules_def to_number_def
        asset_field_truthy_def)
qed

theorem verify_verdict_witness:
  "known_type ''deposit''
   \<and> (\<exists>r. performMockVerification
            \<lparr>asset_type = ''deposit'', asset_value = Some 999,
             asset_description = Some ''A term deposit''\<rparr> = Inr r
          \<and> \<not> verified_result r \<and> failed_result r)"
  using verify_verdict
    [of "\<lparr>asset_type = ''deposit'', asset_value = Some 999,
          asset_description = Some ''A term deposit''\<rparr>"]
  by (simp add: known_type_def spec_passes_def spec_range_def)


text \<open>Every other unknown type is verified under the deposit rules.\<close>

lemma verify_falls_back_to_deposit:
  assumes "\<not> known_type (asset_type a)" and "asset_type a \<notin> set object_prototype_keys"
  shows "performMockVerification a = Inr (verdict a (run_checks deposit_rules a))"
  using assms by (simp add: performMockVerification_def verificationRules_def known_type_def)

section \<open>Properties of the lender review\<close>

text \<open>The verification and lender router guards its review by role and by status.\<close>

lemma approve_loan_guards:
  "\<not> requireLenderRole u \<Longrightarrow>
     approve_loan u i notes conditions now fails s = (Inl Lender_access_required, s)"
  "requireLenderRole u \<Longrightarrow> \<not> fails 0 \<Longrightarrow> single_by_id (loans s) i = Some l \<Longrightarrow>
     l_status l \<noteq> Loan_requested \<Longrightarrow>
     approve_loan u i notes conditions now fails s
       = (Inl (Not_pending_approval (l_status l)), s)"
  by (simp_all add: approve_loan_def)

lemma reject_loan_guards:
  "\<not> requireLenderRole u \<Longrightarrow>
     reject_loan u i reason now fails s = (Inl Lender_access_required, s)"
  "requireLenderRole u \<Longrightarrow> reason \<noteq> None \<Longrightarrow> reason \<noteq> Some [] \<Longrightarrow> \<not> fails 0 \<Longrightarrow>
     single_by_id (loans s) i = Some l \<Longrightarrow> l_status l \<noteq> Loan_requested \<Longrightarrow>
     reject_loan u i reason now fails s = (Inl (Not_pending_approval (l_status l)), s)"
  by (simp_all add: reject_loan_def)

lemma approve_loan_success:
  assumes "approve_loan u i notes conditions now fails s = (Inr l', s')"
  shows "\<exists>l. single_by_id (loans s) i = Some l \<and> l_status l = Loan_requested
     \<and> requireLenderRole u
     \<and> loans s' ! i = l'
     \<and> l_status l' = Loan_approved \<and> lender_id l' = Some (profile_id u)
     \<and> reviewed_at l' = Some now
     \<and> lender_notes l' = written notes (lender_notes l)
     \<and> approval_conditions l' = written conditions (approval_conditions l)
     \<and> (fails 2 \<or> loan_status_history s' = loan_status_history s @
           [\<lparr>h_loan_id = i, old_status = Loan_requested, new_status = Loan_approved,
             changed_by = profile_id u, h_notes = notes\<rparr>])"
  using assms
  by (auto simp: approve_loan_def single_by_id_def Let_def log_status_change_def
      split: option.splits if_splits)

lemma reject_loan_success:
  assumes "reject_loan u i reason now fails s = (Inr l', s')"
  shows "\<exists>l. single_by_id (loans s) i = Some l \<and> l_status l = Loan_requested
     \<and> requireLenderRole u
     \<and> loans s' ! i = l'
     \<and> l_status l' = Loan_rejected \<and> lender_id l' = Some (profile_id u)
     \<and> reviewed_at l' = Some now
     \<and> lender_notes l' = reason
     \<and> (fails 2 \<or> loan_status_history s' = loan_status_history s @
           [\<lparr>h_loan_id = i, old_status = Loan_requested, new_status = Loan_rejected,
             changed_by = profile_id u, h_notes = reason\<rparr>])"
  using assms
  by (auto simp: reject_loan_def single_by_id_def Let_def log_status_change_def
      split: option.splits if_splits)

text \<open>
  C7. The review of a loan is meant to require the status requested and a lender or an
  admin, and to write a status history entry. The lender router does none of it: on a
  loan that is funded its approval by a lender succeeds, sets the status to approved and
  replaces the lender, and writes no history entry; it refuses an admin; its rejection
  sets the same loan to rejected. The verification and lender router answers both
  requests with the error that reports the status funded.
\<close>

theorem lender_approve_ignores_status:
  "fst (lender_approve 5 0 None 100 no_fault example_loans)
     = Inr \<lparr>l_status = Loan_approved, lender_id = Some 5, reviewed_at = Some 100,
            approved_at = None, lender_notes = None, approval_conditions = None\<rparr>
   \<and> l_status (loans (snd (lender_approve 5 0 None 100 no_fault example_loans)) ! 0)
       = Loan_approved
   \<and> loan_status_history (snd (lender_approve 5 0 None 100 no_fault example_loans)) = []
   \<and> fst (lender_approve 6 0 None 100 no_fault example_loans) = Inl Lender_access_required
   \<and> approve_loan \<lparr>profile_id = 5, profile_role = ''lender''\<rparr> 0 None None 100 no_fault
        example_loans = (Inl (Not_pending_approval Loan_funded), example_loans)
   \<and> l_status (loans (snd (lender_reject 5 0 (Some ''too late'') 100 no_fault
        example_loans)) ! 0) = Loan_rejected
   \<and> reject_loan \<lparr>profile_id = 5, profile_role = ''lender''\<rparr> 0 (Some ''too late'') 100
        no_fault example_loans = (Inl (Not_pending_approval Loan_funded), example_loans)"
  by (simp add: lender_approve_def approve_loan_def lender_reject_def reject_loan_def
      example_loans_def no_fault_def single_by_id_def or_null_def requireLenderRole_def
      Let_def)

section \<open>Properties of the escrow lifecycle engine\<close>

subsection \<open>Evaluation of the examples\<close>

lemmas route_defs =
  create_def sendInvite_def acceptInvite_def deposit_def submitMilestone_def
  approveMilestone_def rejectMilestone_def log_activity_def update_escrow_def
  update_milestone_def single_by_id_def single_by_token_def to_number_def
  totalPercentage_def no_fault_def empty_store_def Let_def

lemmas example_defs =
  sme_user_def customer_user_def other_user_def example_request_def
  example_operations_def tolerance_request_def tolerance_operations_def
  short_request_def third_call_fails_def

lemma example_submitted_eq:
  "example_submitted =
   \<lparr>escrows =
      [\<lparr>sme_id = 1, customer_id = Some 2, customer_email = ''customer@example.com'',
        total_amount = 10000, deposited_amount = Some 10000, released_amount = None,
        e_status = Active, invite_token = ''token-1''\<rparr>],
    escrow_milestones =
      [\<lparr>escrow_id = 0, amount = 5000, percentage = 50, order_index = 1,
        m_status = Submitted, evidence_description = Some ''phase one delivered'',
        evidence_url = None, submitted_by = Some 1, approved_by = None,
        rejection_reason = None\<rparr>,
       \<lparr>escrow_id = 0, amount = 3000, percentage = 30, order_index = 2,
        m_status = Pending, evidence_description = None, evidence_url = None,
        submitted_by = None, approved_by = None, rejection_reason = None\<rparr>,
       \<lparr>escrow_id = 0, amount = 2000, percentage = 20, order_index = 3,
        m_status = Pending, evidence_description = None, evidence_url = None,
        submitted_by = None, approved_by = None, rejection_reason = None\<rparr>],
    escrow_activities =
      [\<lparr>act_escrow_id = 0, act_milestone_id = None, act_user_id = 1,
        act_type = Escrow_created, act_amount = None\<rparr>,
       \<lparr>act_escrow_id = 0, act_milestone_id = None, act_user_id = 1,
        act_type = Invite_sent, act_amount = None\<rparr>,
       \<lparr>act_escrow_id = 0, act_milestone_id = None, act_user_id = 2,
        act_type = Invite_accepted, act_amount = None\<rparr>,
       \<lparr>act_escrow_id = 0, act_milestone_id = None, act_user_id = 2,
        act_type = Funds_deposited, act_amount = Some 10000\<rparr>,
       \<lparr>act_escrow_id = 0, act_milestone_id = Some 0, act_user_id = 1,
        act_type = Milestone_submitted, act_amount = None\<rparr>]\<rparr>"
  by (simp add: example_submitted_def example_defs route_defs)

lemma example_store_eq:
  "example_store =
   \<lparr>escrows =
      [\<lparr>sme_id = 1, customer_id = Some 2, customer_email = ''customer@example.com'',
        total_amount = 10000, deposited_amount = Some 10000,
        released_amount = Some 5000, e_status = Active, invite_token = ''token-1''\<rparr>],
    escrow_milestones =
      [\<lparr>escrow_id = 0, amount = 5000, percentage = 50, order_index = 1,
        m_status = Approved, evidence_description = Some ''phase one delivered'',
        evidence_url = None, submitted_by = Some 1, approved_by = Some 2,
        rejection_reason = None\<rparr>,
       \<lparr>escrow_id = 0, amount = 3000, percentage = 30, order_index = 2,
        m_status = Pending, evidence_description = None, evidence_url = None,
        submitted_by = None, approved_by = None, rejection_reason = None\<rparr>,
       \<lparr>escrow_id = 0, amount = 2000, percentage = 20, order_index = 3,
        m_status = Pending, evidence_description = None, evidence_url = None,
        submitted_by = None, approved_by = None, rejection_reason = None\<rparr>],
    escrow_activities =
      [\<lparr>act_escrow_id = 0, act_milestone_id = None, act_user_id = 1,
        act_type = Escrow_created, act_amount = None\<rparr>,
       \<lparr>act_escrow_id = 0, act_milestone_id = None, act_user_id = 1,
        act_type = Invite_sent, act_amount = None\<rparr>,
       \<lparr>act_escrow_id = 0, act_milestone_id = None, act_user_id = 2,
        act_type = Invite_accepted, act_amount = None\<rparr>,
       \<lparr>act_escrow_id = 0, act_milestone_id = None, act_user_id = 2,
        act_type = Funds_deposited, act_amount = Some 10000\<rparr>,
       \<lparr>act_escrow_id = 0, act_milestone_id = Some 0, act_user_id = 1,
        act_type = Milestone_submitted, act_amount = None\<rparr>,
       \<lparr>act_escrow_id = 0, act_milestone_id = Some 0, act_user_id = 2,
        act_type = Milestone_approved, act_amount = Some 5000\<rparr>]\<rparr>"
  by (simp add: example_store_def example_submitted_eq customer_user_def route_defs)


lemma reachable_run: "reachable s \<Longrightarrow> reachable (run xs s)"
  by (induction xs arbitrary: s) (auto intro: reachable.step)


lemma reachable_example_submitted: "reachable example_submitted"
  unfolding example_submitted_def by (rule reachable_run) (rule reachable.init)

lemma reachable_example_store: "reachable example_store"
  unfolding example_store_def by (rule reachable_run) (rule reachable_example_submitted)





subsection \<open>Creation\<close>










subsection \<open>The foreign key holds in every reachable store\<close>


lemma foreign_keys_ok_log_activity [simp]:
  "foreign_keys_ok (log_activity b a s) = foreign_keys_ok s"
  by (simp add: foreign_keys_ok_def log_activity_def)

lemma foreign_keys_ok_update_escrow [simp]:
  "foreign_keys_ok (update_escrow i f s) = foreign_keys_ok s"
  by (simp add: foreign_keys_ok_def update_escrow_def)






subsection \<open>Validation of a creation request\<close>



subsection \<open>The rows a creation writes\<close>




subsection \<open>Acceptance of an invite\<close>

text \<open>
  C6, in the form that holds. With the store client configured: when the token locates an escrow and
  the email of the caller differs from the customer email of that escrow, acceptance fails
  with access denied, HTTP 403, whatever the status of the escrow, and the store is as it
  was; when the token locates no escrow, acceptance fails with not found.
\<close>

theorem acceptInvite_email_mismatch:
  "(cfg \<and> \<not> fails 0 \<and> single_by_token (escrows s) token = Some i
      \<and> customer_email (escrows s ! i) \<noteq> user_email u
     \<longrightarrow> acceptInvite cfg u token fails s = (Inl AccessDenied, s)
         \<and> http_status AccessDenied = 403)
   \<and> (cfg \<and> single_by_token (escrows s) token = None
     \<longrightarrow> acceptInvite cfg u token fails s = (Inl NotFound, s))"
  by (simp add: acceptInvite_def)

theorem acceptInvite_email_mismatch_witness:
  "single_by_token (escrows example_store) ''token-1'' = Some 0
   \<and> customer_email (escrows example_store ! 0) \<noteq> user_email other_user
   \<and> acceptInvite True other_user ''token-1'' no_fault example_store
       = (Inl AccessDenied, example_store)
   \<and> single_by_token (escrows example_store) ''token-9'' = None
   \<and> acceptInvite True other_user ''token-9'' no_fault example_store
       = (Inl NotFound, example_store)"
proof -
  have t: "single_by_token (escrows example_store) ''token-1'' = Some 0"
    and n: "single_by_token (escrows example_store) ''token-9'' = None"
    and e: "customer_email (escrows example_store ! 0) \<noteq> user_email other_user"
    by (simp_all add: example_store_eq single_by_token_def other_user_def)
  show ?thesis
    using t n e
      acceptInvite_email_mismatch
        [where cfg = True and fails = no_fault and s = example_store
           and token = "''token-1''" and i = 0 and u = other_user]
      acceptInvite_email_mismatch
        [where cfg = True and fails = no_fault and s = example_store
           and token = "''token-9''" and i = 0 and u = other_user]
    by (simp add: no_fault_def)
qed

text \<open>
  A caller whose email is the customer email of no escrow, with a token that matches no
  escrow, is answered not found and not access denied.
\<close>

theorem acceptInvite_unknown_token_counterexample:
  "length (escrows example_store) = 1
   \<and> customer_email (escrows example_store ! 0) \<noteq> user_email other_user
   \<and> single_by_token (escrows example_store) ''token-9'' = None
   \<and> fst (acceptInvite True other_user ''token-9'' no_fault example_store) = Inl NotFound
   \<and> fst (acceptInvite True other_user ''token-9'' no_fault example_store)
       \<noteq> Inl AccessDenied"
  by (simp add: example_store_eq acceptInvite_def single_by_token_def other_user_def
      no_fault_def)

subsection \<open>The two writes of an approval\<close>

text \<open>
  C9. An approval writes the milestone and then the escrow, in two store calls. When the
  first write succeeds and the second fails, the route answers with an error, the
  milestone is stored as approved, and the escrows, the released amount among them, are
  as they were: the store has changed although the call failed.
\<close>

theorem approveMilestone_partial_write:
  assumes "cfg" and "\<not> fails 0" and "\<not> fails 1" and "fails 2"
    and "single_by_id (escrow_milestones s) i = Some m"
    and "single_by_id (escrows s) (escrow_id m) = Some e"
    and "customer_id e = Some (user_id u)"
    and "m_status m = Submitted"
    and "approveMilestone cfg u i fails s = (r, s')"
  shows "r = Inl UnexpectedError
     \<and> m_status (escrow_milestones s' ! i) = Approved
     \<and> m_status (escrow_milestones s ! i) = Submitted
     \<and> escrows s' = escrows s
     \<and> s' \<noteq> s"
proof -
  have i: "i < length (escrow_milestones s)" "escrow_milestones s ! i = m"
    using assms(5) by (auto simp: single_by_id_def split: if_splits)
  have s': "s' = update_milestone i
      (\<lambda>m. m\<lparr>m_status := Approved, approved_by := Some (user_id u)\<rparr>) s"
    and r: "r = Inl UnexpectedError"
    using assms by (auto simp: approveMilestone_def Let_def)
  have a: "m_status (escrow_milestones s' ! i) = Approved"
    using i by (simp add: s' update_milestone_def)
  moreover have "s' \<noteq> s"
    using a i assms(8) by auto
  ultimately show ?thesis
    using r i assms(8) by (simp add: s' update_milestone_def)
qed

theorem approveMilestone_partial_write_witness:
  "reachable example_submitted
   \<and> fst (approveMilestone True customer_user 0 third_call_fails example_submitted)
     = Inl UnexpectedError
   \<and> m_status (escrow_milestones
        (snd (approveMilestone True customer_user 0 third_call_fails example_submitted)) ! 0)
       = Approved
   \<and> m_status (escrow_milestones example_submitted ! 0) = Submitted
   \<and> escrows (snd (approveMilestone True customer_user 0 third_call_fails example_submitted))
       = escrows example_submitted
   \<and> released_amount (escrows example_submitted ! 0) = None"
proof -
  have m: "single_by_id (escrow_milestones example_submitted) 0
      = Some (escrow_milestones example_submitted ! 0)"
    and e: "single_by_id (escrows example_submitted)
        (escrow_id (escrow_milestones example_submitted ! 0))
      = Some (escrows example_submitted ! 0)"
    and c: "customer_id (escrows example_submitted ! 0) = Some (user_id customer_user)"
    and st: "m_status (escrow_milestones example_submitted ! 0) = Submitted"
    and rl: "released_amount (escrows example_submitted ! 0) = None"
    by (simp_all add: example_submitted_eq single_by_id_def customer_user_def)
  have f: "\<not> third_call_fails 0" "\<not> third_call_fails 1" "third_call_fails 2"
    by (simp_all add: third_call_fails_def)
  show ?thesis
    using approveMilestone_partial_write [OF TrueI f m e c st surjective_pairing] st rl
      reachable_example_submitted
    by simp
qed

subsection \<open>Transitions of milestone and escrow status\<close>

text \<open>
  A submission succeeds only on a milestone that is pending or rejected and leaves it
  submitted. A milestone that is approved changes its status only by a rejection, and an
  escrow that is active changes its status only by an invite.
\<close>

lemma submitMilestone_success:
  assumes "submitMilestone cfg u i d l fails s = (Inr (), s')"
  shows "\<exists>m. single_by_id (escrow_milestones s) i = Some m
     \<and> (m_status m = Pending \<or> m_status m = Rejected)
     \<and> m_status (escrow_milestones s' ! i) = Submitted"
  using assms
  by (auto simp: submitMilestone_def single_by_id_def log_activity_def update_milestone_def
      split: option.splits if_splits)

lemma milestone_status_update_other:
  "m_status (escrow_milestones (update_milestone i f s) ! j)
     = (if j = i \<and> i < length (escrow_milestones s)
        then m_status (f (escrow_milestones s ! i))
        else m_status (escrow_milestones s ! j))"
  by (auto simp: update_milestone_def not_less list_update_beyond)

lemma approved_changed_only_by_reject:
  assumes "j < length (escrow_milestones s)"
    and "m_status (escrow_milestones s ! j) = Approved"
    and "m_status (escrow_milestones (exec cfg x fails s) ! j) \<noteq> Approved"
  shows "\<exists>u r. x = RejectMilestone u j r"
proof (cases x)
  case (Create u t r)
  then show ?thesis using assms
    by (auto simp: create_def Let_def log_activity_def nth_append split: option.splits if_splits)
next
  case (SendInvite u i)
  then show ?thesis using assms
    by (auto simp: sendInvite_def log_activity_def update_escrow_def split: option.splits if_splits)
next
  case (AcceptInvite u t)
  then show ?thesis using assms
    by (auto simp: acceptInvite_def Let_def log_activity_def update_escrow_def
        split: option.splits if_splits)
next
  case (Deposit u i)
  then show ?thesis using assms
    by (auto simp: deposit_def log_activity_def update_escrow_def split: option.splits if_splits)
next
  case (SubmitMilestone u i d l)
  then show ?thesis using assms
    by (auto simp: submitMilestone_def log_activity_def single_by_id_def
        milestone_status_update_other split: option.splits if_splits)
next
  case (ApproveMilestone u i)
  then show ?thesis using assms
    by (auto simp: approveMilestone_def Let_def log_activity_def single_by_id_def
        update_escrow_def milestone_status_update_other split: option.splits if_splits)
next
  case (RejectMilestone u i r)
  then show ?thesis using assms
    by (auto simp: rejectMilestone_def log_activity_def single_by_id_def
        milestone_status_update_other split: option.splits if_splits)
qed

lemma escrow_status_update_other:
  "e_status (escrows (update_escrow i f s) ! j)
     = (if j = i \<and> i < length (escrows s)
        then e_status (f (escrows s ! i))
        else e_status (escrows s ! j))"
  by (auto simp: update_escrow_def not_less list_update_beyond)

lemma active_left_only_by_sendInvite:
  assumes "j < length (escrows s)"
    and "e_status (escrows s ! j) = Active"
    and "e_status (escrows (exec cfg x fails s) ! j) \<noteq> Active"
  shows "\<exists>u. x = SendInvite u j"
proof (cases x)
  case (Create u t r)
  then show ?thesis using assms
    by (auto simp: create_def Let_def log_activity_def nth_append split: option.splits if_splits)
next
  case (SendInvite u i)
  then show ?thesis using assms
    by (auto simp: sendInvite_def log_activity_def escrow_status_update_other
        split: option.splits if_splits)
next
  case (AcceptInvite u t)
  then show ?thesis using assms
    by (auto simp: acceptInvite_def Let_def log_activity_def escrow_status_update_other
        split: option.splits if_splits)
next
  case (Deposit u i)
  then show ?thesis using assms
    by (auto simp: deposit_def log_activity_def escrow_status_update_other single_by_id_def
        split: option.splits if_splits)
next
  case (SubmitMilestone u i d l)
  then show ?thesis using assms
    by (auto simp: submitMilestone_def log_activity_def update_milestone_def
        split: option.splits if_splits)
next
  case (ApproveMilestone u i)
  then show ?thesis using assms
    by (auto simp: approveMilestone_def Let_def log_activity_def update_milestone_def
        escrow_status_update_other split: option.splits if_splits)
next
  case (RejectMilestone u i r)
  then show ?thesis using assms
    by (auto simp: rejectMilestone_def log_activity_def update_milestone_def
        split: option.splits if_splits)
qed


text \<open>
  C2. A milestone that is approved is meant to stay approved. The rejection route does
  not look at the status: in the reachable example store the first milestone is approved,
  the customer rejects it, the route answers success and the milestone is rejected.
\<close>

theorem reject_changes_approved_milestone:
  "reachable example_store
   \<and> m_status (escrow_milestones example_store ! 0) = Approved
   \<and> fst (rejectMilestone True customer_user 0 (Some ''incomplete'') no_fault example_store)
       = Inr ()
   \<and> m_status (escrow_milestones
        (snd (rejectMilestone True customer_user 0 (Some ''incomplete'') no_fault
           example_store)) ! 0) = Rejected"
  by (rule conjI [OF reachable_example_store])
    (simp add: example_store_eq customer_user_def route_defs)

text \<open>
  C3. An escrow that is active is meant to stay active. The invite route does not look at
  the status: in the reachable example store the escrow is active, its owner sends the
  invite again, the route answers success and the escrow is invited.
\<close>

theorem sendInvite_leaves_active:
  "reachable example_store
   \<and> e_status (escrows example_store ! 0) = Active
   \<and> fst (sendInvite True sme_user 0 no_fault example_store) = Inr ''token-1''
   \<and> e_status (escrows (snd (sendInvite True sme_user 0 no_fault example_store)) ! 0)
       = Invited"
  by (rule conjI [OF reachable_example_store])
    (simp add: example_store_eq sme_user_def route_defs)

subsection \<open>Accounting of the released amount\<close>





lemma ledger_inv_log_activity [simp]: "ledger_inv (log_activity b a s) = ledger_inv s"
  by (simp add: ledger_inv_def log_activity_def released_of_def approved_amounts_def
      milestone_amounts_def milestones_of_def)



























end
